theory Spec2Isabelle
  imports Main
begin

section \<open>Python strings\<close>

text \<open>
  The module is Python 2: a \<open>str\<close> is a byte string, modelled as \<^typ>\<open>string\<close>.
  Each string method the module calls is given with Python's semantics.
\<close>

definition NL :: char where
  "NL = CHR 0x0A"

definition NUL :: char where
  "NUL = CHR 0x00"

definition is_space :: "char \<Rightarrow> bool" where
  "is_space c = (c \<in> set [CHR '' '', CHR 0x09, CHR 0x0A, CHR 0x0B, CHR 0x0C, CHR 0x0D])"

definition is_digit :: "char \<Rightarrow> bool" where
  "is_digit c = (c \<in> set ''0123456789'')"

text \<open>\<open>s.strip()\<close>\<close>

definition py_strip :: "string \<Rightarrow> string" where
  "py_strip s = rev (dropWhile is_space (rev (dropWhile is_space s)))"

text \<open>\<open>s.startswith(p)\<close>\<close>

definition startswith :: "string \<Rightarrow> string \<Rightarrow> bool" where
  "startswith s p = (take (length p) s = p)"

text \<open>\<open>sub in s\<close> on strings: substring test.\<close>

fun py_in :: "string \<Rightarrow> string \<Rightarrow> bool" where
  "py_in sub [] = (sub = [])"
| "py_in sub (c # cs) = (startswith (c # cs) sub \<or> py_in sub cs)"

text \<open>\<open>s.index(c)\<close>: the position of the first occurrence, \<open>None\<close> where Python raises ValueError.\<close>

fun py_index :: "char \<Rightarrow> string \<Rightarrow> nat option" where
  "py_index c [] = None"
| "py_index c (x # xs) = (if x = c then Some 0 else map_option Suc (py_index c xs))"

text \<open>\<open>s.isdigit()\<close>\<close>

definition py_isdigit :: "string \<Rightarrow> bool" where
  "py_isdigit s = (s \<noteq> [] \<and> list_all is_digit s)"

text \<open>\<open>s.split(sep)\<close> with a one-character separator: every occurrence splits, and the result
  has at least one element.\<close>

fun py_split :: "char \<Rightarrow> string \<Rightarrow> string list" where
  "py_split sep [] = [[]]"
| "py_split sep (c # cs) =
     (if c = sep then [] # py_split sep cs
      else (case py_split sep cs of [] \<Rightarrow> [[c]] | l # ls \<Rightarrow> (c # l) # ls))"

text \<open>\<open>s.split()\<close>: the maximal runs of non-whitespace characters; \<open>tok\<close> is the run being read.\<close>

fun split_ws :: "string \<Rightarrow> string \<Rightarrow> string list" where
  "split_ws tok [] = (if tok = [] then [] else [tok])"
| "split_ws tok (c # cs) =
     (if is_space c then (if tok = [] then split_ws [] cs else tok # split_ws [] cs)
      else split_ws (tok @ [c]) cs)"

definition py_split_ws :: "string \<Rightarrow> string list" where
  "py_split_ws s = split_ws [] s"

text \<open>\<open>s.replace(old, new)\<close>: every non-overlapping occurrence of \<open>old\<close>, left to right.\<close>

function py_replace :: "string \<Rightarrow> string \<Rightarrow> string \<Rightarrow> string" where
  "py_replace old new [] = (if old = [] then new else [])"
| "py_replace old new (c # cs) =
     (if old = [] then new @ c # py_replace old new cs
      else if startswith (c # cs) old then new @ py_replace old new (drop (length old) (c # cs))
      else c # py_replace old new cs)"
  by pat_completeness auto
termination
  by (relation "measure (\<lambda>(old, new, s). length s)") auto

declare py_replace.simps(2) [simp del]

text \<open>The lines of a file, each with its line end, as \<open>f.readlines()\<close> and iteration over a
  file give them.\<close>

fun readlines :: "string \<Rightarrow> string list" where
  "readlines [] = []"
| "readlines (c # cs) =
     (if c = NL then [c] # readlines cs
      else (case readlines cs of [] \<Rightarrow> [[c]] | l # ls \<Rightarrow> (c # l) # ls))"

text \<open>\<open>f.readline()\<close> on a fresh file: the text up to and including the first line end.\<close>

definition readline :: "string \<Rightarrow> string" where
  "readline s = (case readlines s of [] \<Rightarrow> [] | l # ls \<Rightarrow> l)"

text \<open>\<open>int(s)\<close> on a string: surrounding whitespace, an optional sign, decimal digits.\<close>

definition digits_val :: "string \<Rightarrow> int option" where
  "digits_val s =
     (if s \<noteq> [] \<and> list_all is_digit s
      then Some (foldl (\<lambda>a c. 10 * a + (int (of_char c) - 48)) 0 s) else None)"

definition py_int :: "string \<Rightarrow> int option" where
  "py_int s =
     (case py_strip s of
        [] \<Rightarrow> None
      | c # cs \<Rightarrow>
          if c = CHR ''-'' then map_option uminus (digits_val cs)
          else if c = CHR ''+'' then digits_val cs
          else digits_val (c # cs))"

text \<open>Decimal rendering of an integer, as \<open>'{0}'.format(n)\<close> gives it.\<close>

function nat_str :: "nat \<Rightarrow> string" where
  "nat_str n =
     (if n < 10 then [char_of (48 + n)] else nat_str (n div 10) @ [char_of (48 + n mod 10)])"
  by pat_completeness auto
termination
  by (relation "measure id") auto

declare nat_str.simps [simp del]

definition int_str :: "int \<Rightarrow> string" where
  "int_str i = (if i < 0 then CHR ''-'' # nat_str (nat (- i)) else nat_str (nat i))"

section \<open>The operating system as the module sees it\<close>

datatype py_error =
  IOError | OSError | KeyError | ValueError | IndexError | TypeError | OverflowError | GLibError

datatype 'a result = Raise py_error | Return 'a

datatype signal = SIGTERM

text \<open>
  One snapshot of the machine. The first seven fields are what the module reads:
  the listing of \<open>/proc\<close>, the contents of \<open>/proc/<pid>/status\<close> and
  \<open>/proc/<pid>/environ\<close> (\<open>None\<close> where \<open>open\<close> raises), the caller's uid, the user
  database, what \<open>dbus-launch\<close> prints (\<open>None\<close> where it cannot be started) and whether
  \<open>Gio.bus_get_sync\<close> connects under a given environment. The others are what it changes:
  its own environment, the clock (in seconds, with the scheduler's delay \<open>oversleep\<close> added
  to every sleep), the number of daemons it has started and the signals it has sent
  (time, pid, signal); \<open>kill_error\<close> says for which pids \<open>os.kill\<close> raises.
\<close>

record os_world =
  proc_listing :: "string list"
  proc_status :: "string \<rightharpoonup> string"
  proc_environ_file :: "string \<rightharpoonup> string"
  os_getuid :: int
  pwd_getpwuid :: "int \<rightharpoonup> string"
  dbus_launch :: "string option"
  gio_bus_get_sync :: "(string \<rightharpoonup> string) \<Rightarrow> bool"
  kill_error :: "int \<rightharpoonup> py_error"
  oversleep :: nat
  os_environ :: "string \<rightharpoonup> string"
  clock :: nat
  launched :: nat
  killed :: "(nat \<times> int \<times> signal) list"

definition time_sleep :: "nat \<Rightarrow> os_world \<Rightarrow> os_world" where
  "time_sleep secs w = w\<lparr>clock := clock w + secs + oversleep w\<rparr>"

definition os_kill :: "int \<Rightarrow> signal \<Rightarrow> os_world \<Rightarrow> unit result \<times> os_world" where
  "os_kill pid sig w =
     (case kill_error w pid of
        Some e \<Rightarrow> (Raise e, w)
      | None \<Rightarrow> (Return (), w\<lparr>killed := killed w @ [(clock w, pid, sig)]\<rparr>))"

section \<open>The module's constants\<close>

definition UID :: nat where
  "UID = 1"

definition ENV_DBUS :: string where
  "ENV_DBUS = ''DBUS_SESSION_BUS_ADDRESS''"

definition SESSION_MANAGERS :: "string list" where
  "SESSION_MANAGERS =
     [''gnome-session'', ''mate-session'', ''xfce4-session'',
      ''cinnamon-session'', ''icewm-session'', ''openbox-session'']"

text \<open>\<open>xs[i]\<close>, with IndexError out of range.\<close>

definition py_nth :: "'a list \<Rightarrow> nat \<Rightarrow> 'a result" where
  "py_nth xs i = (if i < length xs then Return (xs ! i) else Raise IndexError)"

section \<open>The helpers of \<open>Gsettings.__init__\<close>\<close>

text \<open>\<open>proc_name\<close>: the first line of the status record that contains \<open>Name\<close> decides; any
  exception gives \<open>None\<close>.\<close>

fun proc_name_lines :: "string list \<Rightarrow> string option result" where
  "proc_name_lines [] = Return None"
| "proc_name_lines (attr # rest) =
     (if py_in ''Name'' attr
      then (case py_nth (py_split (CHR '':'') attr) 1 of
              Raise e \<Rightarrow> Raise e
            | Return v \<Rightarrow> Return (Some (py_strip v)))
      else proc_name_lines rest)"

definition proc_name :: "os_world \<Rightarrow> string \<Rightarrow> string option" where
  "proc_name w pid =
     (case (case proc_status w pid of
              None \<Rightarrow> Raise IOError
            | Some text \<Rightarrow> proc_name_lines (readlines text)) of
        Raise e \<Rightarrow> None
      | Return r \<Rightarrow> r)"

text \<open>\<open>proc_owner\<close>: nothing is caught here; without a \<open>Uid:\<close> line the function falls off
  its end and returns \<open>None\<close>.\<close>

fun proc_owner_lines :: "os_world \<Rightarrow> string list \<Rightarrow> string option result" where
  "proc_owner_lines w [] = Return None"
| "proc_owner_lines w (ln # rest) =
     (if startswith ln ''Uid:''
      then (case py_nth (py_split_ws ln) UID of
              Raise e \<Rightarrow> Raise e
            | Return tok \<Rightarrow>
                (case py_int tok of
                   None \<Rightarrow> Raise ValueError
                 | Some uid \<Rightarrow>
                     (case pwd_getpwuid w uid of
                        None \<Rightarrow> Raise KeyError
                      | Some pw_name \<Rightarrow> Return (Some pw_name))))
      else proc_owner_lines w rest)"

definition proc_owner :: "os_world \<Rightarrow> string \<Rightarrow> string option result" where
  "proc_owner w pid =
     (case proc_status w pid of
        None \<Rightarrow> Raise IOError
      | Some text \<Rightarrow> proc_owner_lines w (readlines text))"

text \<open>\<open>proc_environ\<close>: one \<open>readline\<close> of the environment block, split at the null bytes.\<close>

fun proc_environ_vars :: "string \<Rightarrow> string list \<Rightarrow> string option" where
  "proc_environ_vars varname [] = None"
| "proc_environ_vars varname (env_var # rest) =
     (if varname \<noteq> []
      then (let prefix = varname @ ''=''
            in if startswith env_var prefix then Some (py_replace prefix [] env_var)
               else proc_environ_vars varname rest)
      else proc_environ_vars varname rest)"

definition proc_environ :: "os_world \<Rightarrow> string \<Rightarrow> string \<Rightarrow> string option result" where
  "proc_environ w pid varname =
     (case proc_environ_file w pid of
        None \<Rightarrow> Raise IOError
      | Some text \<Rightarrow> Return (proc_environ_vars varname (py_split NUL (readline text))))"

definition bus_address :: "os_world \<Rightarrow> string \<Rightarrow> string option result" where
  "bus_address w pid = proc_environ w pid ENV_DBUS"

text \<open>\<open>os.environ[name] = value\<close> for two strings: the assignment passes both to
  \<open>putenv\<close>, which raises for a null byte in either and for an empty name, and changes
  nothing then.\<close>

definition os_environ_set :: "string \<Rightarrow> string \<Rightarrow> os_world \<Rightarrow> unit result \<times> os_world" where
  "os_environ_set name v w =
     (if NUL \<in> set name \<or> NUL \<in> set v then (Raise TypeError, w)
      else if name = [] then (Raise OSError, w)
      else (Return (), w\<lparr>os_environ := (os_environ w)(name \<mapsto> v)\<rparr>))"

text \<open>\<open>new_session\<close>: every line the helper prints is cut at its first \<open>=\<close> and installed in
  the environment; the pid is read back from the environment.\<close>

fun new_session_lines :: "string list \<Rightarrow> os_world \<Rightarrow> unit result \<times> os_world" where
  "new_session_lines [] w = (Return (), w)"
| "new_session_lines (env_string # rest) w =
     (case py_index (CHR ''='') env_string of
        None \<Rightarrow> (Raise ValueError, w)
      | Some i \<Rightarrow>
          (let env_var = take i env_string;
               env_value = drop (i + 1) env_string
           in case os_environ_set env_var env_value w of
                (Raise e, w') \<Rightarrow> (Raise e, w')
              | (Return u, w') \<Rightarrow> new_session_lines rest w'))"

definition new_session :: "os_world \<Rightarrow> string result \<times> os_world" where
  "new_session w =
     (case dbus_launch w of
        None \<Rightarrow> (Raise OSError, w)
      | Some out \<Rightarrow>
          (case new_session_lines (readlines out) (w\<lparr>launched := Suc (launched w)\<rparr>) of
             (Raise e, w') \<Rightarrow> (Raise e, w')
           | (Return u, w') \<Rightarrow>
               (case os_environ w' ''DBUS_SESSION_BUS_PID'' of
                  None \<Rightarrow> (Raise KeyError, w')
                | Some v \<Rightarrow> (Return (py_replace [NL] [] v), w'))))"

section \<open>\<open>Gsettings.__init__\<close> and \<open>Gsettings.__del__\<close>\<close>

text \<open>\<open>session_pid\<close> is the integer \<open>-1\<close> until a process is chosen, and a string after.\<close>

datatype pid_val = PInt int | PStr string

fun py_format :: "pid_val \<Rightarrow> string" where
  "py_format (PStr s) = s"
| "py_format (PInt n) = int_str n"

fun int_of_pid :: "pid_val \<Rightarrow> int option" where
  "int_of_pid (PInt n) = Some n"
| "int_of_pid (PStr s) = py_int s"

record gsettings =
  session_pid :: pid_val
  cleanup :: bool

text \<open>The loop over \<open>os.listdir('/proc')\<close>: its two nested tests are
  \<open>is_session_process\<close>; it has no \<open>break\<close>, each match overwrites \<open>session_pid\<close>.\<close>

definition is_session_process :: "os_world \<Rightarrow> string \<Rightarrow> bool" where
  "is_session_process w procfile =
     (py_isdigit procfile \<and>
      (case proc_name w procfile of None \<Rightarrow> False | Some n \<Rightarrow> n \<in> set SESSION_MANAGERS))"

fun session_scan :: "os_world \<Rightarrow> string list \<Rightarrow> pid_val \<Rightarrow> pid_val" where
  "session_scan w [] sp = sp"
| "session_scan w (procfile # rest) sp =
     session_scan w rest (if is_session_process w procfile then PStr procfile else sp)"

text \<open>\<open>__init__\<close> up to the connection to the bus: the scan, the two user names and the
  choice between reuse and spawn.\<close>

definition gsettings_setup :: "os_world \<Rightarrow> gsettings result \<times> os_world" where
  "gsettings_setup w =
     (let sp = session_scan w (proc_listing w) (PInt (- 1))
      in case pwd_getpwuid w (os_getuid w) of
           None \<Rightarrow> (Raise KeyError, w)
         | Some osuser \<Rightarrow>
             (case (if sp \<noteq> PInt (- 1) then proc_owner w (py_format sp)
                    else Return (Some osuser)) of
                Raise e \<Rightarrow> (Raise e, w)
              | Return sessionuser \<Rightarrow>
                  if sp \<noteq> PInt (- 1) \<and> Some osuser = sessionuser
                  then (case bus_address w (py_format sp) of
                          Raise e \<Rightarrow> (Raise e, w)
                        | Return None \<Rightarrow> (Raise TypeError, w)
                        | Return (Some a) \<Rightarrow>
                            (case os_environ_set ENV_DBUS a w of
                               (Raise e, w') \<Rightarrow> (Raise e, w')
                             | (Return u, w') \<Rightarrow>
                                 (Return \<lparr>session_pid = sp, cleanup = False\<rparr>, w')))
                  else (case new_session w of
                          (Raise e, w') \<Rightarrow> (Raise e, w')
                        | (Return pid, w') \<Rightarrow>
                            (Return \<lparr>session_pid = PStr pid, cleanup = True\<rparr>, w'))))"

text \<open>\<open>__init__\<close>: the last statement connects to the bus.\<close>

definition gsettings_init :: "os_world \<Rightarrow> gsettings result \<times> os_world" where
  "gsettings_init w =
     (case gsettings_setup w of
        (Raise e, w') \<Rightarrow> (Raise e, w')
      | (Return gs, w') \<Rightarrow>
          if gio_bus_get_sync w' (os_environ w') then (Return gs, w')
          else (Raise GLibError, w'))"

text \<open>
  The object that a raising \<open>__init__\<close> leaves behind. \<open>session_pid\<close> and \<open>_cleanup\<close> are
  assigned before anything can raise, the scan raises nothing, and the two branches assign
  them again only once reuse or spawn has succeeded: so the object has the fields of
  \<open>gsettings_setup\<close> where only the connection failed, and the scan's pid with \<open>_cleanup\<close>
  false otherwise.
\<close>

definition object_after_failed_init :: "os_world \<Rightarrow> gsettings" where
  "object_after_failed_init w =
     (case gsettings_setup w of
        (Raise e, w') \<Rightarrow>
          \<lparr>session_pid = session_scan w (proc_listing w) (PInt (- 1)), cleanup = False\<rparr>
      | (Return gs, w') \<Rightarrow> gs)"

text \<open>\<open>__del__\<close>: the grace period is the literal \<open>1\<close> of \<open>time.sleep(1)\<close>.\<close>

definition gsettings_del :: "gsettings \<Rightarrow> os_world \<Rightarrow> unit result \<times> os_world" where
  "gsettings_del gs w =
     (if cleanup gs
      then (let w1 = time_sleep 1 w
            in case int_of_pid (session_pid gs) of
                 None \<Rightarrow> (Raise ValueError, w1)
               | Some pid \<Rightarrow> os_kill pid SIGTERM w1)
      else (Return (), w))"

section \<open>The configuration store, at its interface\<close>

text \<open>
  \<open>Gio.Settings\<close>, \<open>GLib.Variant\<close> and the comparison and printing of Python values belong
  to PyGObject and to Python, not to the module: they are parameters. \<open>'s\<close> is the state of
  the store behind the bus, \<open>'v\<close> the type of Python values.
\<close>

record gio_settings =
  schema_id :: string
  path :: "string option"

record 'v variant =
  type_string :: string
  unpack :: 'v

record ('s, 'v) gio =
  settings_get_value :: "'s \<Rightarrow> gio_settings \<Rightarrow> string \<Rightarrow> 'v variant result"
  settings_set_value :: "'s \<Rightarrow> gio_settings \<Rightarrow> string \<Rightarrow> 'v variant \<Rightarrow> 's result"
  variant_new :: "string \<Rightarrow> 'v \<Rightarrow> 'v variant result"
  py_ne :: "'v \<Rightarrow> 'v \<Rightarrow> bool"
  py_str :: "'v \<Rightarrow> string"

section \<open>\<open>Gsettings.get_value\<close> and \<open>Gsettings.set_value\<close>\<close>

definition get_value :: "('s, 'v) gio \<Rightarrow> 's \<Rightarrow> string \<Rightarrow> string \<Rightarrow> 'v variant result" where
  "get_value api st schema key =
     (if py_in '':'' schema
      then (case py_nth (py_split (CHR '':'') schema) 1 of
              Raise e \<Rightarrow> Raise e
            | Return p \<Rightarrow>
                (case py_nth (py_split (CHR '':'') schema) 0 of
                   Raise e \<Rightarrow> Raise e
                 | Return schema' \<Rightarrow>
                     settings_get_value api st \<lparr>schema_id = schema', path = Some p\<rparr> key))
      else settings_get_value api st \<lparr>schema_id = schema, path = None\<rparr> key)"

definition set_value ::
  "('s, 'v) gio \<Rightarrow> 's \<Rightarrow> string \<Rightarrow> string \<Rightarrow> 'v variant \<Rightarrow> 's result" where
  "set_value api st schema key v =
     (if py_in '':'' schema
      then (case py_nth (py_split (CHR '':'') schema) 1 of
              Raise e \<Rightarrow> Raise e
            | Return p \<Rightarrow>
                (case py_nth (py_split (CHR '':'') schema) 0 of
                   Raise e \<Rightarrow> Raise e
                 | Return schema' \<Rightarrow>
                     settings_set_value api st \<lparr>schema_id = schema', path = Some p\<rparr> key v))
      else settings_set_value api st \<lparr>schema_id = schema, path = None\<rparr> key v)"

section \<open>\<open>main\<close>\<close>

text \<open>An element of the \<open>settings\<close> parameter: the module reads its three keys.\<close>

record 'v gsetting =
  g_schema :: string
  g_key :: string
  g_value :: 'v

text \<open>The variables of \<open>main\<close> that the loop changes, and the store.\<close>

record 's run =
  has_changed :: bool
  change_msgs :: "string list"
  store :: 's

definition format_proposed :: "('s, 'v) gio \<Rightarrow> string \<Rightarrow> string \<Rightarrow> 'v \<Rightarrow> 'v \<Rightarrow> string" where
  "format_proposed api schema key old_value v =
     schema @ ''/'' @ key @ '' -> current: '' @ py_str api old_value
       @ '' ; proposed new: '' @ py_str api v"

definition format_applied :: "('s, 'v) gio \<Rightarrow> string \<Rightarrow> string \<Rightarrow> 'v \<Rightarrow> 'v \<Rightarrow> string" where
  "format_applied api schema key old_value v =
     schema @ ''/'' @ key @ '' -> old: '' @ py_str api old_value @ '' ; new: '' @ py_str api v"

fun main_loop ::
  "('s, 'v) gio \<Rightarrow> bool \<Rightarrow> 'v gsetting list \<Rightarrow> 's run \<Rightarrow> unit result \<times> 's run" where
  "main_loop api check_mode [] r = (Return (), r)"
| "main_loop api check_mode (gsetting # rest) r =
     (case get_value api (store r) (g_schema gsetting) (g_key gsetting) of
        Raise e \<Rightarrow> (Raise e, r)
      | Return old_setting \<Rightarrow>
          if py_ne api (unpack old_setting) (g_value gsetting)
          then if check_mode
               then main_loop api check_mode rest
                      (r\<lparr>has_changed := True,
                         change_msgs := change_msgs r @
                           [format_proposed api (g_schema gsetting) (g_key gsetting)
                              (unpack old_setting) (g_value gsetting)]\<rparr>)
               else (case variant_new api (type_string old_setting) (g_value gsetting) of
                       Raise e \<Rightarrow> (Raise e, r\<lparr>has_changed := True\<rparr>)
                     | Return new_value \<Rightarrow>
                         (case set_value api (store r) (g_schema gsetting) (g_key gsetting)
                                 new_value of
                            Raise e \<Rightarrow> (Raise e, r\<lparr>has_changed := True\<rparr>)
                          | Return st' \<Rightarrow>
                              main_loop api check_mode rest
                                (r\<lparr>has_changed := True,
                                   change_msgs := change_msgs r @
                                     [format_applied api (g_schema gsetting) (g_key gsetting)
                                        (unpack old_setting) (g_value gsetting)],
                                   store := st'\<rparr>)))
          else main_loop api check_mode rest r)"

text \<open>How a run of the module ends: \<open>exit_json\<close>, \<open>fail_json\<close> or an uncaught exception.\<close>

datatype exit = ExitJson int bool "string list" | FailJson int string | Traceback py_error

text \<open>
  \<open>gs = None\<close> drops the last reference to the object, which runs \<open>__del__\<close>; Python
  ignores an exception raised there. An exception in the loop or in \<open>__init__\<close> leaves
  \<open>main\<close> before that line; the traceback keeps the object alive, and the object is
  finalised, \<open>__del__\<close> run, when the interpreter releases the traceback on its way out.
\<close>

definition main ::
  "('s, 'v) gio \<Rightarrow> bool \<Rightarrow> bool \<Rightarrow> 'v gsetting list \<Rightarrow> os_world \<Rightarrow> 's
     \<Rightarrow> exit \<times> os_world \<times> 's" where
  "main api HAS_GIO check_mode settings w st =
     (if \<not> HAS_GIO
      then (FailJson 1 ''The python PyGObject module is a required dependency.'', w, st)
      else (case gsettings_init w of
              (Raise e, w1) \<Rightarrow>
                (Traceback e, snd (gsettings_del (object_after_failed_init w) w1), st)
            | (Return gs, w1) \<Rightarrow>
                (case main_loop api check_mode settings
                        \<lparr>has_changed = False, change_msgs = [], store = st\<rparr> of
                   (Raise e, r) \<Rightarrow> (Traceback e, snd (gsettings_del gs w1), store r)
                 | (Return u, r) \<Rightarrow>
                     (ExitJson 0 (has_changed r) (change_msgs r),
                      snd (gsettings_del gs w1), store r))))"

section \<open>Concrete machines and stores\<close>

text \<open>A machine with no processes, whose caller is user 1000, \<open>jane\<close>.\<close>

definition world0 :: os_world where
  "world0 =
     \<lparr>proc_listing = [], proc_status = Map.empty, proc_environ_file = Map.empty,
      os_getuid = 1000, pwd_getpwuid = [1000 \<mapsto> ''jane'', 1001 \<mapsto> ''joe''],
      dbus_launch = None, gio_bus_get_sync = (\<lambda>env. True), kill_error = Map.empty,
      oversleep = 0, os_environ = Map.empty, clock = 0, launched = 0, killed = []\<rparr>"

text \<open>The status record of a process \<open>gnome-session\<close> of user 1000.\<close>

definition status_gnome :: string where
  "status_gnome =
     ''Name:'' @ [CHR 0x09] @ ''gnome-session'' @ [NL] @
     ''Uid:'' @ [CHR 0x09] @ ''1000'' @ [CHR 0x09] @ ''1000'' @ [NL]"

text \<open>What \<open>dbus-launch\<close> prints for a daemon with pid 4242.\<close>

definition launch_output :: string where
  "launch_output =
     ''DBUS_SESSION_BUS_ADDRESS=unix:abstract=/tmp/dbus-x,guid=0'' @ [NL] @
     ''DBUS_SESSION_BUS_PID=4242'' @ [NL]"

text \<open>
  A store for concrete runs: Python values of three kinds and a store that is the list of
  its writes, newest first. \<open>GLib.Variant\<close> is given for the types \<open>b\<close>, \<open>i\<close> and \<open>s\<close> with
  the conversions PyGObject applies: a boolean takes any value, by its truth; an int32
  takes an integer in range, a boolean being an integer; a string takes a string only.
  \<open>!=\<close> compares booleans and integers as numbers.
\<close>

datatype py_value = VBool bool | VInt int | VStr string

type_synonym test_store = "((string \<times> string option \<times> string) \<times> py_value variant) list"

fun truth :: "py_value \<Rightarrow> bool" where
  "truth (VBool b) = b"
| "truth (VInt i) = (i \<noteq> 0)"
| "truth (VStr s) = (s \<noteq> [])"

fun num_value :: "py_value \<Rightarrow> int option" where
  "num_value (VBool b) = Some (if b then 1 else 0)"
| "num_value (VInt i) = Some i"
| "num_value (VStr s) = None"

definition value_ne :: "py_value \<Rightarrow> py_value \<Rightarrow> bool" where
  "value_ne a b =
     (case (num_value a, num_value b) of
        (Some x, Some y) \<Rightarrow> x \<noteq> y
      | (None, None) \<Rightarrow> a \<noteq> b
      | _ \<Rightarrow> True)"

definition glib_variant :: "string \<Rightarrow> py_value \<Rightarrow> py_value variant result" where
  "glib_variant ts v =
     (if ts = ''b'' then Return \<lparr>type_string = ts, unpack = VBool (truth v)\<rparr>
      else if ts = ''i''
      then (case num_value v of
              None \<Rightarrow> Raise TypeError
            | Some i \<Rightarrow>
                if - (2 ^ 31) \<le> i \<and> i < 2 ^ 31 then Return \<lparr>type_string = ts, unpack = VInt i\<rparr>
                else Raise OverflowError)
      else if ts = ''s''
      then (case v of
              VStr x \<Rightarrow> Return \<lparr>type_string = ts, unpack = v\<rparr>
            | _ \<Rightarrow> Raise TypeError)
      else Raise TypeError)"

fun str_value :: "py_value \<Rightarrow> string" where
  "str_value (VBool b) = (if b then ''True'' else ''False'')"
| "str_value (VInt i) = int_str i"
| "str_value (VStr s) = s"

definition test_gio :: "(test_store, py_value) gio" where
  "test_gio =
     \<lparr>settings_get_value = (\<lambda>st s key.
         case map_of st (schema_id s, path s, key) of
           None \<Rightarrow> Raise GLibError
         | Some v \<Rightarrow> Return v),
      settings_set_value = (\<lambda>st s key v. Return (((schema_id s, path s, key), v) # st)),
      variant_new = glib_variant,
      py_ne = value_ne,
      py_str = str_value\<rparr>"

text \<open>The machine whose \<open>dbus-launch\<close> works, with no process at all.\<close>

definition world_launch :: os_world where
  "world_launch = world0\<lparr>dbus_launch := Some launch_output\<rparr>"



text \<open>Two session managers of the caller, pids 100 and 200, listed in this order.\<close>

definition world_two :: os_world where
  "world_two =
     world0\<lparr>proc_listing := [''100'', ''self'', ''200''],
            proc_status := [''100'' \<mapsto> status_gnome, ''200'' \<mapsto> status_gnome]\<rparr>"

text \<open>One session manager of the caller whose environment block cannot be opened, on a
  machine whose \<open>dbus-launch\<close> works; and the same with a readable block that has no bus
  address.\<close>

definition world_unreadable :: os_world where
  "world_unreadable =
     world_launch\<lparr>proc_listing := [''100''], proc_status := [''100'' \<mapsto> status_gnome]\<rparr>"

definition world_novar :: os_world where
  "world_novar =
     world_unreadable\<lparr>proc_environ_file := [''100'' \<mapsto> ''HOME=/home/jane'' @ [NUL]]\<rparr>"

text \<open>One session manager of another user, \<open>joe\<close>, on a machine whose \<open>dbus-launch\<close>
  cannot be started.\<close>

definition status_gnome_joe :: string where
  "status_gnome_joe =
     ''Name:'' @ [CHR 0x09] @ ''gnome-session'' @ [NL] @
     ''Uid:'' @ [CHR 0x09] @ ''1001'' @ [CHR 0x09] @ ''1001'' @ [NL]"

definition world_other_owner :: os_world where
  "world_other_owner =
     world0\<lparr>proc_listing := [''100''], proc_status := [''100'' \<mapsto> status_gnome_joe]\<rparr>"

text \<open>A manager that started daemon 4242, and one that reuses the session of process 100.\<close>

definition gs_ephemeral :: gsettings where
  "gs_ephemeral = \<lparr>session_pid = PStr ''4242'', cleanup = True\<rparr>"

definition gs_reused :: gsettings where
  "gs_reused = \<lparr>session_pid = PStr ''100'', cleanup = False\<rparr>"

text \<open>A line \<open>KEY=VALUE\<close> of the helper's output, with its line end.\<close>

definition env_line :: "string \<times> string \<Rightarrow> string" where
  "env_line kv = fst kv @ ''='' @ snd kv @ [NL]"

text \<open>The comparison \<open>main\<close> makes for one setting against a store, and the message it
  records for it in check mode.\<close>

definition differs :: "('s, 'v) gio \<Rightarrow> 's \<Rightarrow> 'v gsetting \<Rightarrow> bool" where
  "differs api st g =
     (case get_value api st (g_schema g) (g_key g) of
        Raise e \<Rightarrow> False
      | Return old_setting \<Rightarrow> py_ne api (unpack old_setting) (g_value g))"

definition proposed_msg :: "('s, 'v) gio \<Rightarrow> 's \<Rightarrow> 'v gsetting \<Rightarrow> string" where
  "proposed_msg api st g =
     (case get_value api st (g_schema g) (g_key g) of
        Raise e \<Rightarrow> []
      | Return old_setting \<Rightarrow>
          format_proposed api (g_schema g) (g_key g) (unpack old_setting) (g_value g))"

text \<open>A store with a boolean and a string key, and three settings lists for it.\<close>

definition store0 :: test_store where
  "store0 =
     [((''org.example.screensaver'', None, ''lock-enabled''),
       \<lparr>type_string = ''b'', unpack = VBool False\<rparr>),
      ((''org.example.screensaver'', None, ''name''),
       \<lparr>type_string = ''s'', unpack = VStr ''a''\<rparr>)]"

definition setting_lock :: "py_value gsetting" where
  "setting_lock =
     \<lparr>g_schema = ''org.example.screensaver'', g_key = ''lock-enabled'', g_value = VBool True\<rparr>"

definition setting_bad :: "py_value gsetting" where
  "setting_bad =
     \<lparr>g_schema = ''org.example.screensaver'', g_key = ''name'', g_value = VInt 5\<rparr>"

definition setting_name :: "py_value gsetting" where
  "setting_name =
     \<lparr>g_schema = ''org.example.screensaver'', g_key = ''name'', g_value = VStr ''b''\<rparr>"

text \<open>Environment blocks of a process 100: one whose value repeats its own \<open>NAME=\<close>,
  and one with an exported shell function, whose value spans two lines, before the bus
  address.\<close>

definition world_environ :: "string \<Rightarrow> os_world" where
  "world_environ block = world0\<lparr>proc_environ_file := [''100'' \<mapsto> block]\<rparr>"

definition block_repeat :: string where
  "block_repeat = ''A=xA=y'' @ [NUL] @ ''B=z'' @ [NUL]"

definition block_multiline :: string where
  "block_multiline =
     ''F=() {'' @ [NL] @ ''}'' @ [NUL] @
     ''DBUS_SESSION_BUS_ADDRESS=unix:path=/run/bus'' @ [NUL]"

text \<open>A relocatable schema with its instance path, as the \<open>gsettings\<close> tool takes it.\<close>

definition schema_profile :: string where
  "schema_profile = ''org.gnome.Terminal.Legacy.Profile:/org/gnome/terminal/legacy/profiles:/:b1/''"

section \<open>What the specification expects of two helpers\<close>

text \<open>
  The value of a variable in an environment block, in the specification's words: the
  block is a null-delimited sequence of \<open>KEY=VALUE\<close> entries, and the result is the value
  of the entry for the name, or none.
\<close>

definition spec_environ_value :: "string \<Rightarrow> string \<Rightarrow> string option" where
  "spec_environ_value block name =
     map_option (drop (length name + 1))
       (find (\<lambda>entry. startswith entry (name @ ''='')) (py_split NUL block))"

text \<open>
  The split of a schema identifier, in the specification's words: at the first
  delimiter, the schema before it and the path after it; no path without a delimiter.
\<close>

definition spec_split_schema :: "string \<Rightarrow> string \<times> string option" where
  "spec_split_schema s =
     (takeWhile (\<lambda>c. c \<noteq> CHR '':'') s,
      if CHR '':'' \<in> set s then Some (tl (dropWhile (\<lambda>c. c \<noteq> CHR '':'') s)) else None)"

section \<open>Facts about the helpers\<close>

lemma find_snoc:
  "find P (xs @ [x]) =
     (case find P xs of None \<Rightarrow> (if P x then Some x else None) | Some y \<Rightarrow> Some y)"
  by (induction xs) auto

lemma session_scan_last:
  "session_scan w ps sp =
     (case find (is_session_process w) (rev ps) of None \<Rightarrow> sp | Some p \<Rightarrow> PStr p)"
proof (induction ps arbitrary: sp)
  case Nil
  show ?case by simp
next
  case (Cons p ps)
  show ?case
    by (simp add: Cons.IH find_snoc split: option.splits)
qed

lemma is_session_process_gnome:
  "py_isdigit p \<Longrightarrow> proc_status w p = Some status_gnome \<Longrightarrow> is_session_process w p"
  by (simp add: is_session_process_def proc_name_def status_gnome_def NL_def startswith_def
      py_nth_def py_strip_def is_space_def SESSION_MANAGERS_def)


lemma proc_owner_gnome:
  "proc_status w p = Some status_gnome \<Longrightarrow> pwd_getpwuid w 1000 = Some u \<Longrightarrow>
   proc_owner w p = Return (Some u)"
  by (simp add: proc_owner_def status_gnome_def NL_def startswith_def py_nth_def
      py_split_ws_def UID_def py_int_def py_strip_def is_space_def digits_val_def is_digit_def)

lemma is_session_process_gnome_joe:
  "py_isdigit p \<Longrightarrow> proc_status w p = Some status_gnome_joe \<Longrightarrow> is_session_process w p"
  by (simp add: is_session_process_def proc_name_def status_gnome_joe_def NL_def startswith_def
      py_nth_def py_strip_def is_space_def SESSION_MANAGERS_def)

lemma proc_owner_gnome_joe:
  "proc_status w p = Some status_gnome_joe \<Longrightarrow> pwd_getpwuid w 1001 = Some u \<Longrightarrow>
   proc_owner w p = Return (Some u)"
  by (simp add: proc_owner_def status_gnome_joe_def NL_def startswith_def py_nth_def
      py_split_ws_def UID_def py_int_def py_strip_def is_space_def digits_val_def is_digit_def)

lemma new_session_lines_launched:
  "launched (snd (new_session_lines ls w)) = launched w"
  by (induction ls arbitrary: w) (auto simp: os_environ_set_def Let_def split: option.splits)

lemma new_session_launched:
  "new_session w = (Return pid, w') \<Longrightarrow> launched w' = Suc (launched w)"
  using new_session_lines_launched
    [of "readlines (the (dbus_launch w))" "w\<lparr>launched := Suc (launched w)\<rparr>"]
  by (auto simp: new_session_def split: option.splits prod.splits result.splits)

lemma readlines_line:
  "NL \<notin> set l \<Longrightarrow> readlines (l @ NL # rest) = (l @ [NL]) # readlines rest"
  by (induction l) auto

lemma readlines_env_lines:
  "\<forall>(k, v) \<in> set kvs. NL \<notin> set k \<and> NL \<notin> set v \<Longrightarrow>
   readlines (concat (map env_line kvs)) = map env_line kvs"
proof (induction kvs)
  case Nil
  show ?case by simp
next
  case (Cons kv kvs)
  obtain k v where kv: "kv = (k, v)" by (cases kv)
  have "NL \<notin> set (k @ ''='' @ v)"
    using Cons.prems by (simp add: kv NL_def)
  then have "readlines ((k @ ''='' @ v) @ NL # concat (map env_line kvs)) =
      ((k @ ''='' @ v) @ [NL]) # readlines (concat (map env_line kvs))"
    by (rule readlines_line)
  moreover have "env_line kv = (k @ ''='' @ v) @ [NL]"
    by (simp add: env_line_def kv)
  moreover have "readlines (concat (map env_line kvs)) = map env_line kvs"
    using Cons by simp
  ultimately show ?case
    by simp
qed

lemma py_index_first:
  "c \<notin> set k \<Longrightarrow> py_index c (k @ c # r) = Some (length k)"
  by (induction k) auto

lemma new_session_lines_env_lines:
  "\<forall>(k, v) \<in> set kvs. k \<noteq> [] \<and> CHR ''='' \<notin> set k \<and> NUL \<notin> set k \<and> NUL \<notin> set v \<Longrightarrow>
   new_session_lines (map env_line kvs) w =
     (Return (),
      w\<lparr>os_environ := os_environ w ++ map_of (rev (map (\<lambda>(k, v). (k, v @ [NL])) kvs))\<rparr>)"
proof (induction kvs arbitrary: w)
  case Nil
  show ?case by simp
next
  case (Cons kv kvs)
  obtain k v where kv: "kv = (k, v)" by (cases kv)
  have k: "CHR ''='' \<notin> set k" using Cons.prems by (simp add: kv)
  have idx: "py_index (CHR ''='') (env_line kv) = Some (length k)"
    using py_index_first [OF k, of "v @ [NL]"] by (simp add: env_line_def kv)
  have rest: "\<forall>(k, v) \<in> set kvs.
      k \<noteq> [] \<and> CHR ''='' \<notin> set k \<and> NUL \<notin> set k \<and> NUL \<notin> set v"
    using Cons.prems by simp
  have put: "os_environ_set k (v @ [NL]) w =
      (Return (), w\<lparr>os_environ := (os_environ w)(k \<mapsto> v @ [NL])\<rparr>)"
    using Cons.prems by (simp add: kv os_environ_set_def NL_def NUL_def)
  have el: "env_line kv = k @ ''='' @ v @ [NL]"
    by (simp add: env_line_def kv)
  let ?w' = "w\<lparr>os_environ := (os_environ w)(k \<mapsto> v @ [NL])\<rparr>"
  let ?f = "\<lambda>(k, v). (k, v @ [NL])"
  have env: "os_environ ?w' ++ map_of (rev (map ?f kvs)) =
      os_environ w ++ map_of (rev (map ?f (kv # kvs)))"
    by (auto simp: kv map_add_def fun_eq_iff split: option.splits)
  have "new_session_lines (map env_line (kv # kvs)) w =
      new_session_lines (map env_line kvs) ?w'"
    using idx put by (simp add: el)
  also have "\<dots> =
      (Return (), ?w'\<lparr>os_environ := os_environ ?w' ++ map_of (rev (map ?f kvs))\<rparr>)"
    by (rule Cons.IH [OF rest])
  also have "?w'\<lparr>os_environ := os_environ ?w' ++ map_of (rev (map ?f kvs))\<rparr> =
      w\<lparr>os_environ := os_environ w ++ map_of (rev (map ?f (kv # kvs)))\<rparr>"
    by (simp only: env) simp
  finally show ?case .
qed

lemma py_replace_NL:
  "NL \<notin> set v \<Longrightarrow> py_replace [NL] [] (v @ [NL]) = v"
  by (induction v) (auto simp: py_replace.simps startswith_def)

lemma map_of_rev_newline:
  "map_of (rev (map (\<lambda>(k, v). (k, v @ [NL])) kvs)) k =
     map_option (\<lambda>v. v @ [NL]) (map_of (rev kvs) k)"
proof -
  have "rev (map (\<lambda>(k, v). (k, v @ [NL])) kvs) = map (\<lambda>(k, v). (k, v @ [NL])) (rev kvs)"
    by (rule rev_map)
  then show ?thesis by (simp only: map_of_map comp_def)
qed

text \<open>What \<open>new_session\<close> does when the helper prints well-formed lines, one of them for
  the daemon's pid: no line makes the assignment to the environment raise.\<close>

lemma new_session_env_lines:
  assumes out: "dbus_launch w = Some (concat (map env_line kvs))"
      and wf: "\<forall>(k, v) \<in> set kvs. k \<noteq> [] \<and> CHR ''='' \<notin> set k \<and> NL \<notin> set k \<and> NUL \<notin> set k \<and>
        NL \<notin> set v \<and> NUL \<notin> set v"
      and pid: "map_of (rev kvs) ''DBUS_SESSION_BUS_PID'' = Some pid"
  shows "new_session w =
           (Return pid,
            w\<lparr>launched := Suc (launched w),
              os_environ :=
                os_environ w ++ map_of (rev (map (\<lambda>(k, v). (k, v @ [NL])) kvs))\<rparr>)"
proof -
  let ?w1 = "w\<lparr>launched := Suc (launched w)\<rparr>"
  let ?m = "map_of (rev (map (\<lambda>(k, v). (k, v @ [NL])) kvs))"
  let ?w2 = "?w1\<lparr>os_environ := os_environ ?w1 ++ ?m\<rparr>"
  have lines: "readlines (concat (map env_line kvs)) = map env_line kvs"
    using wf by (intro readlines_env_lines) auto
  have loop: "new_session_lines (map env_line kvs) ?w1 = (Return (), ?w2)"
    using wf by (intro new_session_lines_env_lines) auto
  have look: "os_environ ?w2 ''DBUS_SESSION_BUS_PID'' = Some (pid @ [NL])"
    using pid by (simp add: map_add_def map_of_rev_newline)
  have "(''DBUS_SESSION_BUS_PID'', pid) \<in> set (rev kvs)"
    using pid by (rule map_of_SomeD)
  then have nl: "NL \<notin> set pid" using wf by auto
  have "new_session w = (Return pid, ?w2)"
    unfolding new_session_def out lines option.case loop prod.case result.case look
    by (simp only: py_replace_NL [OF nl])
  then show ?thesis by simp
qed

lemma launch_output_lines:
  "launch_output =
     concat (map env_line
       [(ENV_DBUS, ''unix:abstract=/tmp/dbus-x,guid=0''), (''DBUS_SESSION_BUS_PID'', ''4242'')])"
  by (simp add: launch_output_def env_line_def ENV_DBUS_def)

lemma new_session_launch_output:
  assumes "dbus_launch w = Some launch_output"
  shows "fst (new_session w) = Return ''4242''"
    and "launched (snd (new_session w)) = Suc (launched w)"
    and "gio_bus_get_sync (snd (new_session w)) = gio_bus_get_sync w"
    and "killed (snd (new_session w)) = killed w"
    and "clock (snd (new_session w)) = clock w"
    and "oversleep (snd (new_session w)) = oversleep w"
    and "kill_error (snd (new_session w)) = kill_error w"
proof -
  let ?kvs = "[(ENV_DBUS, ''unix:abstract=/tmp/dbus-x,guid=0''),
               (''DBUS_SESSION_BUS_PID'', ''4242'')]"
  have out: "dbus_launch w = Some (concat (map env_line ?kvs))"
    using assms by (simp only: launch_output_lines)
  have wf: "\<forall>(k, v) \<in> set ?kvs. k \<noteq> [] \<and> CHR ''='' \<notin> set k \<and> NL \<notin> set k \<and> NUL \<notin> set k \<and>
        NL \<notin> set v \<and> NUL \<notin> set v"
    by (simp add: ENV_DBUS_def NL_def NUL_def)
  have pid: "map_of (rev ?kvs) ''DBUS_SESSION_BUS_PID'' = Some ''4242''"
    by simp
  note ns = new_session_env_lines [OF out wf pid]
  show "fst (new_session w) = Return ''4242''"
    by (simp only: ns fst_conv)
  show "launched (snd (new_session w)) = Suc (launched w)"
    by (simp only: ns snd_conv) simp
  show "gio_bus_get_sync (snd (new_session w)) = gio_bus_get_sync w"
    by (simp only: ns snd_conv) simp
  show "killed (snd (new_session w)) = killed w"
    by (simp only: ns snd_conv) simp
  show "clock (snd (new_session w)) = clock w"
    by (simp only: ns snd_conv) simp
  show "oversleep (snd (new_session w)) = oversleep w"
    by (simp only: ns snd_conv) simp
  show "kill_error (snd (new_session w)) = kill_error w"
    by (simp only: ns snd_conv) simp
qed

text \<open>Construction on the machine with no process and a working \<open>dbus-launch\<close>.\<close>

lemma gsettings_init_world_launch_machine:
  "gsettings_init world_launch = (Return gs_ephemeral, snd (new_session world_launch))"
proof -
  have d: "dbus_launch world_launch = Some launch_output"
    by (simp add: world_launch_def)
  have ok: "gio_bus_get_sync world_launch env" for env
    by (simp add: world_launch_def world0_def)
  obtain r w' where ns: "new_session world_launch = (r, w')"
    by (cases "new_session world_launch")
  have r: "r = Return ''4242''"
    using new_session_launch_output(1) [OF d] by (simp add: ns)
  have w': "gio_bus_get_sync w' env" for env
    using new_session_launch_output(3) [OF d] ok by (simp add: ns)
  have l: "proc_listing world_launch = []"
    and u: "pwd_getpwuid world_launch (os_getuid world_launch) = Some ''jane''"
    by (simp_all add: world_launch_def world0_def)
  show ?thesis
    by (simp add: gsettings_init_def gsettings_setup_def l u ns r w' gs_ephemeral_def)
qed

lemma gsettings_init_world_launch:
  "fst (gsettings_init world_launch) = Return gs_ephemeral"
  by (simp add: gsettings_init_world_launch_machine)

text \<open>Disposal of that manager: one second later the daemon is sent SIGTERM.\<close>

lemma gsettings_del_after_launch:
  "killed (snd (gsettings_del gs_ephemeral (snd (new_session world_launch)))) =
     [(1, 4242, SIGTERM)]"
proof -
  have d: "dbus_launch world_launch = Some launch_output"
    by (simp add: world_launch_def)
  let ?w = "snd (new_session world_launch)"
  have f: "killed ?w = []" "clock ?w = 0" "oversleep ?w = 0" "kill_error ?w = Map.empty"
    using new_session_launch_output(4-7) [OF d] by (simp_all add: world_launch_def world0_def)
  have p: "int_of_pid (session_pid gs_ephemeral) = Some 4242"
    by (simp add: gs_ephemeral_def py_int_def py_strip_def is_space_def digits_val_def
        is_digit_def)
  have c: "cleanup gs_ephemeral"
    by (simp add: gs_ephemeral_def)
  show ?thesis
    by (simp add: gsettings_del_def c p time_sleep_def os_kill_def f)
qed

text \<open>The invariant of the connection: a manager is marked for cleanup exactly when its
  construction started a daemon.\<close>

lemma gsettings_init_cleanup:
  assumes "gsettings_init w = (Return gs, w')"
  shows "cleanup gs = (launched w' = Suc (launched w))"
proof -
  obtain u where u: "pwd_getpwuid w (os_getuid w) = Some u"
    using assms by (auto simp: gsettings_init_def gsettings_setup_def Let_def split: option.splits)
  let ?sp = "session_scan w (proc_listing w) (PInt (- 1))"
  obtain su where su: "(if ?sp \<noteq> PInt (- 1) then proc_owner w (py_format ?sp)
      else Return (Some u)) = Return su"
    using assms u
    by (cases "if ?sp \<noteq> PInt (- 1) then proc_owner w (py_format ?sp) else Return (Some u)")
      (auto simp: gsettings_init_def gsettings_setup_def Let_def)
  show ?thesis
  proof (cases "?sp \<noteq> PInt (- 1) \<and> Some u = su")
    case True
    then show ?thesis
      using assms u su
      by (auto simp: gsettings_init_def gsettings_setup_def Let_def os_environ_set_def
          split: result.splits option.splits if_splits)
  next
    case False
    then show ?thesis
      using assms u su new_session_launched [of w]
      by (auto simp: gsettings_init_def gsettings_setup_def Let_def
          split: result.splits prod.splits if_splits)
  qed
qed

section \<open>Session discovery\<close>

text \<open>
  Claim C2, as the specification states it: of several session-manager processes the first
  in scan order is selected. The loop does not stop at a match: on a machine that lists
  session managers 100 and 200 in this order, the first match is 100 and the loop leaves
  200 in \<open>session_pid\<close>.
\<close>

theorem first_match_not_selected:
  "find (is_session_process world_two) (proc_listing world_two) = Some ''100'' \<and>
   session_scan world_two (proc_listing world_two) (PInt (- 1)) = PStr ''200''"
proof -
  have a: "is_session_process world_two ''100''"
    by (rule is_session_process_gnome) (simp_all add: world_two_def py_isdigit_def is_digit_def)
  have b: "is_session_process world_two ''200''"
    by (rule is_session_process_gnome) (simp_all add: world_two_def py_isdigit_def is_digit_def)
  have l: "proc_listing world_two = [''100'', ''self'', ''200'']"
    by (simp add: world_two_def)
  show ?thesis
    by (simp add: l a b)
qed

text \<open>
  Claim C2, amended: one process at most is selected, and it is the last entry of the
  scan whose name is all digits and whose process name is a known session manager; with
  no such entry \<open>session_pid\<close> keeps the sentinel \<open>-1\<close>.
\<close>

theorem session_scan_selects_last:
  "session_scan w (proc_listing w) (PInt (- 1)) =
     (case find (is_session_process w) (rev (proc_listing w)) of
        None \<Rightarrow> PInt (- 1)
      | Some p \<Rightarrow> PStr p)"
  by (rule session_scan_last)



section \<open>Reuse of a session and its failures\<close>

text \<open>What construction does once the scan has selected a process: with an owner that
  cannot be read, and with the caller as owner, no daemon is started.\<close>

lemma reuse_never_launches:
  assumes "session_scan w (proc_listing w) (PInt (- 1)) = PStr p"
      and "pwd_getpwuid w (os_getuid w) = Some u"
      and "proc_owner w p = Return (Some u) \<or> (\<exists>e. proc_owner w p = Raise e)"
  shows "launched (snd (gsettings_init w)) = launched w"
  using assms
  by (auto simp: gsettings_init_def gsettings_setup_def os_environ_set_def
      split: result.splits option.splits)

lemma spawn_path:
  assumes "pwd_getpwuid w (os_getuid w) = Some u"
      and "session_scan w (proc_listing w) (PInt (- 1)) = PInt (- 1) \<or>
           (\<exists>p owner. session_scan w (proc_listing w) (PInt (- 1)) = PStr p \<and>
              proc_owner w p = Return owner \<and> owner \<noteq> Some u)"
  shows "gsettings_init w =
           (case new_session w of
              (Raise e, w') \<Rightarrow> (Raise e, w')
            | (Return pid, w') \<Rightarrow>
                if gio_bus_get_sync w' (os_environ w')
                then (Return \<lparr>session_pid = PStr pid, cleanup = True\<rparr>, w')
                else (Raise GLibError, w'))"
  using assms
  by (auto simp: gsettings_init_def gsettings_setup_def split: result.splits prod.splits)

text \<open>
  Claim C1, as the specification states it: a failure to read the candidate's environment
  is absorbed and the manager spawns an ephemeral daemon. On a machine with one session
  manager of the caller whose environment block cannot be opened, and whose
  \<open>dbus-launch\<close> would work, construction raises the IOError and starts no daemon.
\<close>

theorem reuse_failure_not_absorbed:
  "fst (gsettings_init world_unreadable) = Raise IOError \<and>
   launched (snd (gsettings_init world_unreadable)) = launched world_unreadable \<and>
   fst (new_session world_unreadable) = Return ''4242''"
proof -
  have a: "is_session_process world_unreadable ''100''"
    by (rule is_session_process_gnome)
      (simp_all add: world_unreadable_def py_isdigit_def is_digit_def)
  have l: "proc_listing world_unreadable = [''100'']"
    by (simp add: world_unreadable_def)
  have scan: "session_scan world_unreadable (proc_listing world_unreadable) (PInt (- 1)) =
      PStr ''100''"
    by (simp add: l a)
  have own: "proc_owner world_unreadable ''100'' = Return (Some ''jane'')"
    by (rule proc_owner_gnome)
      (simp_all add: world_unreadable_def world_launch_def world0_def)
  have me: "pwd_getpwuid world_unreadable (os_getuid world_unreadable) = Some ''jane''"
    by (simp add: world_unreadable_def world_launch_def world0_def)
  have env: "bus_address world_unreadable ''100'' = Raise IOError"
    by (simp add: bus_address_def proc_environ_def world_unreadable_def world_launch_def
        world0_def)
  have "gsettings_init world_unreadable = (Raise IOError, world_unreadable)"
    by (simp add: gsettings_init_def gsettings_setup_def scan own me env)
  moreover have "fst (new_session world_unreadable) = Return ''4242''"
    by (rule new_session_launch_output(1))
      (simp add: world_unreadable_def world_launch_def)
  ultimately show ?thesis by simp
qed

text \<open>
  Claim C1, amended, for a caller the user database knows and the process \<open>sp\<close> that the
  scan selects. When the selected session manager is owned by the caller, the manager
  attempts reuse and nothing else: if the environment block cannot be read, or holds no
  bus address, construction raises that error (an IOError, or the TypeError of storing
  \<open>None\<close> in the environment) and leaves the machine as it was. A daemon is started only
  when no session manager is found or the owner of the selected one is read and is not
  the caller. In those two cases construction is the launch followed by the connection
  to the bus, so that a failure of the launch is the failure of construction.
\<close>

theorem resolution_failures_are_fatal:
  assumes "pwd_getpwuid w (os_getuid w) = Some u"
      and "sp = session_scan w (proc_listing w) (PInt (- 1))"
  shows "(\<forall>p. sp = PStr p \<and> proc_owner w p = Return (Some u) \<and>
              (\<forall>a. bus_address w p \<noteq> Return (Some a)) \<longrightarrow>
            gsettings_init w =
              (Raise (case bus_address w p of Raise e \<Rightarrow> e | Return r \<Rightarrow> TypeError), w)) \<and>
         (launched (snd (gsettings_init w)) \<noteq> launched w \<longrightarrow>
            sp = PInt (- 1) \<or>
            (\<exists>p owner. sp = PStr p \<and> proc_owner w p = Return owner \<and> owner \<noteq> Some u)) \<and>
         (sp = PInt (- 1) \<or>
          (\<exists>p owner. sp = PStr p \<and> proc_owner w p = Return owner \<and> owner \<noteq> Some u) \<longrightarrow>
            gsettings_init w =
              (case new_session w of
                 (Raise e, w') \<Rightarrow> (Raise e, w')
               | (Return pid, w') \<Rightarrow>
                   if gio_bus_get_sync w' (os_environ w')
                   then (Return \<lparr>session_pid = PStr pid, cleanup = True\<rparr>, w')
                   else (Raise GLibError, w')) \<and>
            (\<forall>e w'. new_session w = (Raise e, w') \<longrightarrow> gsettings_init w = (Raise e, w')))"
proof (intro conjI allI impI)
  fix p
  assume "sp = PStr p \<and> proc_owner w p = Return (Some u) \<and>
          (\<forall>a. bus_address w p \<noteq> Return (Some a))"
  then show "gsettings_init w =
      (Raise (case bus_address w p of Raise e \<Rightarrow> e | Return r \<Rightarrow> TypeError), w)"
    using assms
    by (auto simp: gsettings_init_def gsettings_setup_def split: result.splits option.splits)
next
  assume changed: "launched (snd (gsettings_init w)) \<noteq> launched w"
  show "sp = PInt (- 1) \<or>
      (\<exists>p owner. sp = PStr p \<and> proc_owner w p = Return owner \<and> owner \<noteq> Some u)"
  proof (rule ccontr)
    assume no: "\<not> (sp = PInt (- 1) \<or>
      (\<exists>p owner. sp = PStr p \<and> proc_owner w p = Return owner \<and> owner \<noteq> Some u))"
    have "sp = PInt (- 1) \<or> (\<exists>p. sp = PStr p)"
      unfolding assms(2) by (simp add: session_scan_last split: option.splits)
    with no obtain p where p: "sp = PStr p" by blast
    have "proc_owner w p = Return (Some u) \<or> (\<exists>e. proc_owner w p = Raise e)"
      using no p by (cases "proc_owner w p") auto
    with p have "launched (snd (gsettings_init w)) = launched w"
      using assms by (intro reuse_never_launches) auto
    with changed show False by simp
  qed
next
  assume fb: "sp = PInt (- 1) \<or>
      (\<exists>p owner. sp = PStr p \<and> proc_owner w p = Return owner \<and> owner \<noteq> Some u)"
  then show init: "gsettings_init w =
      (case new_session w of
         (Raise e, w') \<Rightarrow> (Raise e, w')
       | (Return pid, w') \<Rightarrow>
           if gio_bus_get_sync w' (os_environ w')
           then (Return \<lparr>session_pid = PStr pid, cleanup = True\<rparr>, w')
           else (Raise GLibError, w'))"
    using assms by (intro spawn_path) auto
  fix e w'
  assume "new_session w = (Raise e, w')"
  then show "gsettings_init w = (Raise e, w')"
    by (simp add: init)
qed

theorem resolution_failures_are_fatal_witness:
  "gsettings_init world_novar = (Raise TypeError, world_novar) \<and>
   launched (snd (gsettings_init world_launch)) \<noteq> launched world_launch \<and>
   session_scan world_launch (proc_listing world_launch) (PInt (- 1)) = PInt (- 1) \<and>
   proc_owner world_other_owner ''100'' = Return (Some ''joe'') \<and>
   new_session world_other_owner = (Raise OSError, world_other_owner) \<and>
   gsettings_init world_other_owner = (Raise OSError, world_other_owner)"
proof -
  have a: "is_session_process world_novar ''100''"
    by (rule is_session_process_gnome)
      (simp_all add: world_novar_def world_unreadable_def py_isdigit_def is_digit_def)
  have l: "proc_listing world_novar = [''100'']"
    by (simp add: world_novar_def world_unreadable_def)
  have scan: "PStr ''100'' = session_scan world_novar (proc_listing world_novar) (PInt (- 1))"
    by (simp add: l a)
  have own: "proc_owner world_novar ''100'' = Return (Some ''jane'')"
    by (rule proc_owner_gnome)
      (simp_all add: world_novar_def world_unreadable_def world_launch_def world0_def)
  have me: "pwd_getpwuid world_novar (os_getuid world_novar) = Some ''jane''"
    by (simp add: world_novar_def world_unreadable_def world_launch_def world0_def)
  have env: "bus_address world_novar ''100'' = Return None"
    by (simp add: bus_address_def proc_environ_def world_novar_def readline_def NL_def
        NUL_def ENV_DBUS_def startswith_def)
  have one: "gsettings_init world_novar = (Raise TypeError, world_novar)"
    using resolution_failures_are_fatal [OF me scan] own by (simp add: env)
  have me2: "pwd_getpwuid world_launch (os_getuid world_launch) = Some ''jane''"
    by (simp add: world_launch_def world0_def)
  have scan2: "session_scan world_launch (proc_listing world_launch) (PInt (- 1)) = PInt (- 1)"
    by (simp add: world_launch_def world0_def)
  obtain w1 where init2: "gsettings_init world_launch = (Return gs_ephemeral, w1)"
    using gsettings_init_world_launch by (cases "gsettings_init world_launch") simp
  have two: "launched (snd (gsettings_init world_launch)) \<noteq> launched world_launch"
    using gsettings_init_cleanup [OF init2] by (simp add: init2 gs_ephemeral_def)
  have "PInt (- 1) = PInt (- 1) \<or>
      (\<exists>p owner. PInt (- 1) = PStr p \<and> proc_owner world_launch p = Return owner \<and>
         owner \<noteq> Some ''jane'')"
    using resolution_failures_are_fatal [OF me2 scan2 [symmetric]] two by blast
  have a3: "is_session_process world_other_owner ''100''"
    by (rule is_session_process_gnome_joe)
      (simp_all add: world_other_owner_def py_isdigit_def is_digit_def)
  have l3: "proc_listing world_other_owner = [''100'']"
    by (simp add: world_other_owner_def)
  have scan3: "PStr ''100'' =
      session_scan world_other_owner (proc_listing world_other_owner) (PInt (- 1))"
    by (simp add: l3 a3)
  have own3: "proc_owner world_other_owner ''100'' = Return (Some ''joe'')"
    by (rule proc_owner_gnome_joe) (simp_all add: world_other_owner_def world0_def)
  have me3: "pwd_getpwuid world_other_owner (os_getuid world_other_owner) = Some ''jane''"
    by (simp add: world_other_owner_def world0_def)
  have ns3: "new_session world_other_owner = (Raise OSError, world_other_owner)"
    by (simp add: new_session_def world_other_owner_def world0_def)
  have three: "gsettings_init world_other_owner = (Raise OSError, world_other_owner)"
    using resolution_failures_are_fatal [OF me3 scan3] own3 ns3 by auto
  from one two scan2 own3 ns3 three show ?thesis by simp
qed

section \<open>Disposal\<close>

text \<open>
  Claim C4: disposal of a manager whose connection is not ephemeral (\<open>_cleanup\<close> is
  false) does nothing: no signal is sent and the machine is unchanged. So a disposal that
  sends a termination signal is that of an ephemeral connection.
\<close>

theorem del_spares_reused_session:
  assumes "\<not> cleanup gs"
  shows "gsettings_del gs w = (Return (), w) \<and> killed (snd (gsettings_del gs w)) = killed w"
  using assms by (simp add: gsettings_del_def)

theorem del_spares_reused_session_witness:
  "\<not> cleanup gs_reused \<and> gsettings_del gs_reused world0 = (Return (), world0) \<and>
   killed (snd (gsettings_del gs_reused world0)) = killed world0"
proof -
  have h: "\<not> cleanup gs_reused"
    by (simp add: gs_reused_def)
  show ?thesis
    using h del_spares_reused_session [OF h, of world0] by simp
qed

text \<open>
  Claim C5: disposal of an ephemeral connection sleeps for the grace period of one second
  first, on every path: the clock has advanced by at least one second when disposal ends,
  and every signal that disposal sends is sent at least one second after disposal began.
\<close>

theorem del_waits_before_signal:
  assumes "cleanup gs"
  shows "clock w + 1 \<le> clock (snd (gsettings_del gs w)) \<and>
         (\<exists>new. killed (snd (gsettings_del gs w)) = killed w @ new \<and>
                (\<forall>(t, pid, sig) \<in> set new. clock w + 1 \<le> t))"
  using assms
  by (auto simp: gsettings_del_def time_sleep_def os_kill_def Let_def split: option.splits)

theorem del_waits_before_signal_witness:
  "cleanup gs_ephemeral \<and>
   clock world0 + 1 \<le> clock (snd (gsettings_del gs_ephemeral world0)) \<and>
   killed (snd (gsettings_del gs_ephemeral world0)) = killed world0 @ [(1, 4242, SIGTERM)] \<and>
   clock world0 = 0"
proof -
  have h: "cleanup gs_ephemeral"
    by (simp add: gs_ephemeral_def)
  have k: "killed (snd (gsettings_del gs_ephemeral world0)) =
      killed world0 @ [(1, 4242, SIGTERM)]"
    by (simp add: gsettings_del_def gs_ephemeral_def world0_def time_sleep_def os_kill_def
        py_int_def py_strip_def is_space_def digits_val_def is_digit_def)
  have c: "clock world0 = 0"
    by (simp add: world0_def)
  show ?thesis
    using h k c del_waits_before_signal [OF h, of world0] by simp
qed

section \<open>The ephemeral daemon's environment\<close>

text \<open>
  Claim C10: when the helper prints lines \<open>KEY=VALUE\<close>, each ended by a newline, with
  names that are not empty and names and values that the environment takes (no null
  byte), the value installed in the environment for a key is the value of its last line
  with the newline kept (so the stored bus address is the printed address and a newline),
  while the pid that \<open>new_session\<close> returns is the printed pid without the newline.
\<close>

theorem new_session_keeps_newline:
  assumes "dbus_launch w = Some (concat (map env_line kvs))"
      and "\<forall>(k, v) \<in> set kvs. k \<noteq> [] \<and> CHR ''='' \<notin> set k \<and> NL \<notin> set k \<and> NUL \<notin> set k \<and>
        NL \<notin> set v \<and> NUL \<notin> set v"
      and "map_of (rev kvs) ''DBUS_SESSION_BUS_PID'' = Some pid"
  shows "fst (new_session w) = Return pid \<and>
         (\<forall>k v. map_of (rev kvs) k = Some v \<longrightarrow>
            os_environ (snd (new_session w)) k = Some (v @ [NL]))"
proof -
  note ns = new_session_env_lines [OF assms]
  have "os_environ (snd (new_session w)) k = Some (v @ [NL])"
    if "map_of (rev kvs) k = Some v" for k v
    unfolding ns using that by (simp add: map_add_def map_of_rev_newline)
  then show ?thesis
    by (simp add: ns)
qed

theorem new_session_keeps_newline_witness:
  "dbus_launch world_launch =
     Some (concat (map env_line
       [(ENV_DBUS, ''unix:abstract=/tmp/dbus-x,guid=0''), (''DBUS_SESSION_BUS_PID'', ''4242'')])) \<and>
   fst (new_session world_launch) = Return ''4242'' \<and>
   os_environ (snd (new_session world_launch)) ENV_DBUS =
     Some (''unix:abstract=/tmp/dbus-x,guid=0'' @ [NL]) \<and>
   os_environ (snd (new_session world_launch)) ''DBUS_SESSION_BUS_PID'' = Some (''4242'' @ [NL])"
proof -
  let ?kvs = "[(ENV_DBUS, ''unix:abstract=/tmp/dbus-x,guid=0''),
               (''DBUS_SESSION_BUS_PID'', ''4242'')]"
  have out: "dbus_launch world_launch = Some (concat (map env_line ?kvs))"
    by (simp only: launch_output_lines [symmetric]) (simp add: world_launch_def)
  have wf: "\<forall>(k, v) \<in> set ?kvs. k \<noteq> [] \<and> CHR ''='' \<notin> set k \<and> NL \<notin> set k \<and> NUL \<notin> set k \<and>
        NL \<notin> set v \<and> NUL \<notin> set v"
    by (simp add: ENV_DBUS_def NL_def NUL_def)
  have pid: "map_of (rev ?kvs) ''DBUS_SESSION_BUS_PID'' = Some ''4242''"
    by simp
  have addr: "map_of (rev ?kvs) ENV_DBUS = Some ''unix:abstract=/tmp/dbus-x,guid=0''"
    by (simp add: ENV_DBUS_def)
  show ?thesis
    using new_session_keeps_newline [OF out wf pid] addr pid out by blast
qed

section \<open>Facts about \<open>main\<close>\<close>

lemma main_loop_check_store:
  "store (snd (main_loop api True gs r)) = store r"
  by (induction gs arbitrary: r) (auto split: result.splits)

lemma main_loop_check_msgs:
  "fst (main_loop api True gs r) = Return () \<Longrightarrow>
   change_msgs (snd (main_loop api True gs r)) =
     change_msgs r @ map (proposed_msg api (store r)) (filter (differs api (store r)) gs)"
proof (induction gs arbitrary: r)
  case Nil
  show ?case by simp
next
  case (Cons g gs)
  show ?case
  proof (cases "get_value api (store r) (g_schema g) (g_key g)")
    case (Raise e)
    with Cons.prems show ?thesis by simp
  next
    case (Return old)
    show ?thesis
    proof (cases "py_ne api (unpack old) (g_value g)")
      case True
      let ?r = "r\<lparr>has_changed := True,
                   change_msgs := change_msgs r @
                     [format_proposed api (g_schema g) (g_key g) (unpack old) (g_value g)]\<rparr>"
      have step: "main_loop api True (g # gs) r = main_loop api True gs ?r"
        using Return True by simp
      have "fst (main_loop api True gs ?r) = Return ()"
        using Cons.prems step by simp
      from Cons.IH [OF this] show ?thesis
        unfolding step using Return True by (simp add: differs_def proposed_msg_def)
    next
      case False
      have step: "main_loop api True (g # gs) r = main_loop api True gs r"
        using Return False by simp
      have "fst (main_loop api True gs r) = Return ()"
        using Cons.prems step by simp
      from Cons.IH [OF this] show ?thesis
        unfolding step using Return False by (simp add: differs_def)
    qed
  qed
qed

lemma main_loop_changed:
  "fst (main_loop api cm gs r) = Return () \<Longrightarrow>
   has_changed (snd (main_loop api cm gs r)) =
     (has_changed r \<or> (\<exists>g \<in> set gs. differs api (store r) g))"
proof (induction gs arbitrary: r)
  case Nil
  show ?case by simp
next
  case (Cons g gs)
  show ?case
  proof (cases "get_value api (store r) (g_schema g) (g_key g)")
    case (Raise e)
    with Cons.prems show ?thesis by simp
  next
    case (Return old)
    show ?thesis
    proof (cases "py_ne api (unpack old) (g_value g)")
      case False
      have step: "main_loop api cm (g # gs) r = main_loop api cm gs r"
        using Return False by simp
      have "fst (main_loop api cm gs r) = Return ()"
        using Cons.prems step by simp
      from Cons.IH [OF this] show ?thesis
        unfolding step using Return False by (simp add: differs_def)
    next
      case True
      have d: "differs api (store r) g"
        using Return True by (simp add: differs_def)
      obtain r' where step: "main_loop api cm (g # gs) r = main_loop api cm gs r'"
        and r': "has_changed r'"
        using Cons.prems Return True
        by (cases cm) (auto split: result.splits)
      have "fst (main_loop api cm gs r') = Return ()"
        using Cons.prems step by simp
      from Cons.IH [OF this] show ?thesis
        unfolding step using d r' by simp
    qed
  qed
qed

lemma main_loop_append:
  "main_loop api cm (xs @ ys) r =
     (case main_loop api cm xs r of
        (Raise e, r') \<Rightarrow> (Raise e, r')
      | (Return u, r') \<Rightarrow> main_loop api cm ys r')"
  by (induction xs arbitrary: r) (auto split: result.splits prod.splits)

text \<open>In check mode the store is never written, however the run ends.\<close>

lemma check_mode_never_writes:
  "snd (snd (main api HAS_GIO True settings w st)) = st"
  using main_loop_check_store
    [of api settings "\<lparr>has_changed = False, change_msgs = [], store = st\<rparr>"]
  by (auto simp: main_def split: prod.splits result.splits)

lemma int_str_5:
  "int_str 5 = ''5''"
  by code_simp

text \<open>The schema identifier of the concrete settings has no delimiter, so no path.\<close>

lemma get_value_screensaver:
  "get_value api st ''org.example.screensaver'' key =
     settings_get_value api st \<lparr>schema_id = ''org.example.screensaver'', path = None\<rparr> key"
  by (simp add: get_value_def startswith_def)

lemma set_value_screensaver:
  "set_value api st ''org.example.screensaver'' key v =
     settings_set_value api st \<lparr>schema_id = ''org.example.screensaver'', path = None\<rparr> key v"
  by (simp add: set_value_def startswith_def)

section \<open>The environment extractor\<close>

text \<open>
  Claim C8: the extractor returns exactly the value of the variable when an entry for it
  exists. The code misses this on two blocks. \<open>replace(prefix, '')\<close> deletes every
  occurrence of \<open>NAME=\<close>, not the leading one: for the entry \<open>A=xA=y\<close> it returns \<open>xy\<close>.
  And \<open>readline()\<close> reads the block only up to its first newline: behind a value of two
  lines the entry of the bus address exists and is not found.
\<close>

theorem proc_environ_misses_value:
  "proc_environ (world_environ block_repeat) ''100'' ''A'' = Return (Some ''xy'') \<and>
   spec_environ_value block_repeat ''A'' = Some ''xA=y'' \<and>
   proc_environ (world_environ block_multiline) ''100'' ENV_DBUS = Return None \<and>
   spec_environ_value block_multiline ENV_DBUS = Some ''unix:path=/run/bus''"
proof -
  have a: "proc_environ (world_environ block_repeat) ''100'' ''A'' = Return (Some ''xy'')"
    by (simp add: proc_environ_def world_environ_def block_repeat_def readline_def
        NL_def NUL_def startswith_def py_replace.simps)
  have b: "spec_environ_value block_repeat ''A'' = Some ''xA=y''"
    by (simp add: spec_environ_value_def block_repeat_def NUL_def startswith_def)
  have c: "proc_environ (world_environ block_multiline) ''100'' ENV_DBUS = Return None"
    by (simp add: proc_environ_def world_environ_def block_multiline_def readline_def
        NL_def NUL_def startswith_def ENV_DBUS_def)
  have d: "spec_environ_value block_multiline ENV_DBUS = Some ''unix:path=/run/bus''"
    by (simp add: spec_environ_value_def block_multiline_def NL_def NUL_def startswith_def
        ENV_DBUS_def)
  from a b c d show ?thesis by simp
qed

section \<open>Schema identifiers\<close>

text \<open>
  Claim C6: everything after the first delimiter is the instance path. The code takes
  \<open>schema.split(':')[1]\<close>, the text between the first and the second delimiter: for a
  path that itself contains the delimiter, \<open>get_value\<close> and \<open>set_value\<close> open the
  settings object with a truncated path.
\<close>

theorem schema_path_truncated:
  "get_value api st schema_profile key =
     settings_get_value api st
       \<lparr>schema_id = ''org.gnome.Terminal.Legacy.Profile'',
        path = Some ''/org/gnome/terminal/legacy/profiles''\<rparr> key \<and>
   set_value api st schema_profile key v =
     settings_set_value api st
       \<lparr>schema_id = ''org.gnome.Terminal.Legacy.Profile'',
        path = Some ''/org/gnome/terminal/legacy/profiles''\<rparr> key v \<and>
   spec_split_schema schema_profile =
     (''org.gnome.Terminal.Legacy.Profile'',
      Some ''/org/gnome/terminal/legacy/profiles:/:b1/'')"
proof -
  have i: "py_in '':'' schema_profile"
    by (simp add: schema_profile_def startswith_def)
  have s: "py_split (CHR '':'') schema_profile =
      [''org.gnome.Terminal.Legacy.Profile'', ''/org/gnome/terminal/legacy/profiles'',
       ''/'', ''b1/'']"
    by (simp add: schema_profile_def)
  have g: "get_value api st schema_profile key =
     settings_get_value api st
       \<lparr>schema_id = ''org.gnome.Terminal.Legacy.Profile'',
        path = Some ''/org/gnome/terminal/legacy/profiles''\<rparr> key"
    by (simp add: get_value_def i s py_nth_def)
  have t: "set_value api st schema_profile key v =
     settings_set_value api st
       \<lparr>schema_id = ''org.gnome.Terminal.Legacy.Profile'',
        path = Some ''/org/gnome/terminal/legacy/profiles''\<rparr> key v"
    by (simp add: set_value_def i s py_nth_def)
  have p: "spec_split_schema schema_profile =
     (''org.gnome.Terminal.Legacy.Profile'',
      Some ''/org/gnome/terminal/legacy/profiles:/:b1/'')"
    by (simp add: spec_split_schema_def schema_profile_def)
  from g t p show ?thesis by simp
qed

section \<open>The batch of settings\<close>

text \<open>
  Claim C7, as the specification states it: a value that cannot be encoded as the
  setting's type is reported for its triplet and the remaining triplets are processed. On
  a store whose key \<open>name\<close> is a string, the list that asks for the integer \<open>5\<close> there and
  then for the screen lock ends in the uncaught TypeError of \<open>GLib.Variant\<close>: no result
  is reported, and the second triplet, which differs, is not written.
\<close>

theorem encode_error_aborts_batch:
  "fst (main test_gio True False [setting_bad, setting_lock] world_launch store0) =
     Traceback TypeError \<and>
   snd (snd (main test_gio True False [setting_bad, setting_lock] world_launch store0)) =
     store0 \<and>
   differs test_gio store0 setting_lock"
proof -
  note init = gsettings_init_world_launch_machine
  have loop: "main_loop test_gio False [setting_bad, setting_lock]
        \<lparr>has_changed = False, change_msgs = [], store = store0\<rparr> =
      (Raise TypeError, \<lparr>has_changed = True, change_msgs = [], store = store0\<rparr>)"
    by (simp add: get_value_screensaver setting_bad_def test_gio_def store0_def
        value_ne_def glib_variant_def)
  have d: "differs test_gio store0 setting_lock"
    by (simp add: differs_def get_value_screensaver setting_lock_def test_gio_def
        store0_def value_ne_def)
  have "main test_gio True False [setting_bad, setting_lock] world_launch store0 =
      (Traceback TypeError,
       snd (gsettings_del gs_ephemeral (snd (new_session world_launch))), store0)"
    unfolding main_def init loop by simp
  with d show ?thesis by simp
qed

text \<open>
  Claim C7, amended. With check mode off, when the desired value of a triplet differs
  from the current one and cannot be encoded as the existing setting's type, the error is
  not caught: the run ends with that exception instead of a result, the triplets after it
  are not processed, the store holds the writes of the triplets before it, and the
  manager is disposed of on the way out. With check mode on the value is never encoded:
  the triplet is recorded as a proposed change and the loop goes on with the triplets
  after it.
\<close>

theorem encode_error_is_fatal:
  assumes "gsettings_init w = (Return gs, w1)"
      and "main_loop api check_mode pre \<lparr>has_changed = False, change_msgs = [], store = st\<rparr> =
             (Return (), r)"
      and "get_value api (store r) (g_schema g) (g_key g) = Return old_setting"
      and "py_ne api (unpack old_setting) (g_value g)"
      and "variant_new api (type_string old_setting) (g_value g) = Raise e"
  shows "(\<not> check_mode \<longrightarrow>
            main api True check_mode (pre @ g # post) w st =
              (Traceback e, snd (gsettings_del gs w1), store r)) \<and>
         (check_mode \<longrightarrow>
            main_loop api check_mode (pre @ g # post)
                \<lparr>has_changed = False, change_msgs = [], store = st\<rparr> =
              main_loop api check_mode post
                (r\<lparr>has_changed := True,
                   change_msgs := change_msgs r @
                     [format_proposed api (g_schema g) (g_key g) (unpack old_setting)
                        (g_value g)]\<rparr>))"
proof (intro conjI impI)
  assume off: "\<not> check_mode"
  have "main_loop api False (g # post) r = (Raise e, r\<lparr>has_changed := True\<rparr>)"
    using assms(3-5) by simp
  then have "main_loop api False (pre @ g # post)
        \<lparr>has_changed = False, change_msgs = [], store = st\<rparr> =
      (Raise e, r\<lparr>has_changed := True\<rparr>)"
    using assms(2) off by (simp only: main_loop_append prod.case result.case)
  then show "main api True check_mode (pre @ g # post) w st =
      (Traceback e, snd (gsettings_del gs w1), store r)"
    using off by (simp add: main_def assms(1))
next
  assume on: check_mode
  have "main_loop api True (g # post) r =
      main_loop api True post
        (r\<lparr>has_changed := True,
           change_msgs := change_msgs r @
             [format_proposed api (g_schema g) (g_key g) (unpack old_setting) (g_value g)]\<rparr>)"
    using assms(3,4) by simp
  then show "main_loop api check_mode (pre @ g # post)
        \<lparr>has_changed = False, change_msgs = [], store = st\<rparr> =
      main_loop api check_mode post
        (r\<lparr>has_changed := True,
           change_msgs := change_msgs r @
             [format_proposed api (g_schema g) (g_key g) (unpack old_setting) (g_value g)]\<rparr>)"
    using assms(2) on by (simp only: main_loop_append prod.case result.case)
qed

theorem encode_error_is_fatal_witness:
  "fst (main test_gio True False [setting_lock, setting_bad, setting_name] world_launch store0) =
     Traceback TypeError \<and>
   killed (fst (snd (main test_gio True False [setting_lock, setting_bad, setting_name]
                       world_launch store0))) =
     [(1, 4242, SIGTERM)] \<and>
   snd (snd (main test_gio True False [setting_lock, setting_bad, setting_name]
               world_launch store0)) =
     ((''org.example.screensaver'', None, ''lock-enabled''),
      \<lparr>type_string = ''b'', unpack = VBool True\<rparr>) # store0 \<and>
   main_loop test_gio True [setting_bad, setting_lock]
       \<lparr>has_changed = False, change_msgs = [], store = store0\<rparr> =
     (Return (),
      \<lparr>has_changed = True,
       change_msgs =
         [''org.example.screensaver/name -> current: a ; proposed new: 5'',
          ''org.example.screensaver/lock-enabled -> current: False ; proposed new: True''],
       store = store0\<rparr>)"
proof -
  note init = gsettings_init_world_launch_machine
  let ?start = "\<lparr>has_changed = False, change_msgs = [], store = store0\<rparr>"
  let ?st = "((''org.example.screensaver'', None, ''lock-enabled''),
      \<lparr>type_string = ''b'', unpack = VBool True\<rparr>) # store0"
  let ?after = "\<lparr>has_changed = True,
      change_msgs = [format_applied test_gio ''org.example.screensaver'' ''lock-enabled''
        (VBool False) (VBool True)],
      store = ?st\<rparr>"
  let ?old = "\<lparr>type_string = ''s'', unpack = VStr ''a''\<rparr>"
  have pre: "main_loop test_gio False [setting_lock] ?start = (Return (), ?after)"
    by (simp add: get_value_screensaver set_value_screensaver setting_lock_def
        test_gio_def store0_def value_ne_def glib_variant_def)
  have old: "get_value test_gio (store ?after) (g_schema setting_bad) (g_key setting_bad) =
      Return ?old"
    by (simp add: get_value_screensaver setting_bad_def test_gio_def store0_def)
  have ne: "py_ne test_gio (unpack ?old) (g_value setting_bad)"
    by (simp add: setting_bad_def test_gio_def value_ne_def)
  have enc: "variant_new test_gio (type_string ?old) (g_value setting_bad) = Raise TypeError"
    by (simp add: setting_bad_def test_gio_def glib_variant_def)
  have off: "main test_gio True False ([setting_lock] @ setting_bad # [setting_name])
      world_launch store0 =
      (Traceback TypeError,
       snd (gsettings_del gs_ephemeral (snd (new_session world_launch))), store ?after)"
    using encode_error_is_fatal [OF init pre old ne enc] by simp
  have pre0: "main_loop test_gio True [] ?start = (Return (), ?start)"
    by simp
  have old0: "get_value test_gio (store ?start) (g_schema setting_bad) (g_key setting_bad) =
      Return ?old"
    by (simp add: get_value_screensaver setting_bad_def test_gio_def store0_def)
  have "main_loop test_gio True ([] @ setting_bad # [setting_lock]) ?start =
      main_loop test_gio True [setting_lock]
        (?start\<lparr>has_changed := True,
           change_msgs := change_msgs ?start @
             [format_proposed test_gio (g_schema setting_bad) (g_key setting_bad)
                (unpack ?old) (g_value setting_bad)]\<rparr>)"
    using encode_error_is_fatal [OF init pre0 old0 ne enc] by simp
  also have "\<dots> =
      (Return (),
       \<lparr>has_changed = True,
        change_msgs =
          [''org.example.screensaver/name -> current: a ; proposed new: 5'',
           ''org.example.screensaver/lock-enabled -> current: False ; proposed new: True''],
        store = store0\<rparr>)"
    by (simp add: get_value_screensaver setting_lock_def setting_bad_def test_gio_def
        store0_def value_ne_def format_proposed_def int_str_5)
  finally have on: "main_loop test_gio True [setting_bad, setting_lock] ?start =
      (Return (),
       \<lparr>has_changed = True,
        change_msgs =
          [''org.example.screensaver/name -> current: a ; proposed new: 5'',
           ''org.example.screensaver/lock-enabled -> current: False ; proposed new: True''],
        store = store0\<rparr>)"
    by simp
  from off on gsettings_del_after_launch show ?thesis
    by simp
qed

text \<open>
  Claim C9: whenever the module reports a result, its \<open>changed\<close> flag is true exactly
  when at least one triplet differs from the store the run began with; and in check mode
  the store is the one the run began with and the messages are, in order, the proposed
  changes of the triplets that differ.
\<close>

theorem check_mode_and_changed_flag:
  assumes "main api HAS_GIO check_mode settings w st = (ExitJson rc changed msgs, w', st')"
  shows "changed = (\<exists>g \<in> set settings. differs api st g) \<and>
         (check_mode \<longrightarrow>
            st' = st \<and>
            msgs = map (proposed_msg api st) (filter (differs api st) settings))"
proof -
  let ?r0 = "\<lparr>has_changed = False, change_msgs = [], store = st\<rparr>"
  obtain r where loop: "main_loop api check_mode settings ?r0 = (Return (), r)"
    and ch: "changed = has_changed r" and ms: "msgs = change_msgs r" and s: "st' = store r"
    using assms
    by (auto simp: main_def split: if_splits prod.splits result.splits)
  have ok: "fst (main_loop api check_mode settings ?r0) = Return ()"
    by (simp add: loop)
  have "changed = (\<exists>g \<in> set settings. differs api st g)"
    using main_loop_changed [OF ok] by (simp add: loop ch)
  moreover have "st' = st" if check_mode
  proof -
    have "main_loop api True settings ?r0 = (Return (), r)"
      using loop that by simp
    then show ?thesis
      using main_loop_check_store [of api settings ?r0] by (simp add: s)
  qed
  moreover have "msgs = map (proposed_msg api st) (filter (differs api st) settings)"
    if check_mode
  proof -
    have "main_loop api True settings ?r0 = (Return (), r)"
      using loop that by simp
    then show ?thesis
      using main_loop_check_msgs [of api settings ?r0] by (simp add: ms)
  qed
  ultimately show ?thesis by blast
qed

theorem check_mode_and_changed_flag_witness:
  "fst (main test_gio True True [setting_lock] world_launch store0) =
     ExitJson 0 True
       [''org.example.screensaver/lock-enabled -> current: False ; proposed new: True''] \<and>
   snd (snd (main test_gio True True [setting_lock] world_launch store0)) = store0 \<and>
   differs test_gio store0 setting_lock \<and>
   proposed_msg test_gio store0 setting_lock =
     ''org.example.screensaver/lock-enabled -> current: False ; proposed new: True''"
proof -
  obtain w1 where init: "gsettings_init world_launch = (Return gs_ephemeral, w1)"
    using gsettings_init_world_launch by (cases "gsettings_init world_launch") simp
  let ?msg = "''org.example.screensaver/lock-enabled -> current: False ; proposed new: True''"
  have loop: "main_loop test_gio True [setting_lock]
        \<lparr>has_changed = False, change_msgs = [], store = store0\<rparr> =
      (Return (), \<lparr>has_changed = True, change_msgs = [?msg], store = store0\<rparr>)"
    by (simp add: get_value_screensaver setting_lock_def test_gio_def store0_def
        format_proposed_def value_ne_def)
  have m: "main test_gio True True [setting_lock] world_launch store0 =
      (ExitJson 0 True [?msg], snd (gsettings_del gs_ephemeral w1), store0)"
    unfolding main_def init loop by simp
  have d: "differs test_gio store0 setting_lock"
    using check_mode_and_changed_flag [OF m] by simp
  have p: "proposed_msg test_gio store0 setting_lock = ?msg"
    using check_mode_and_changed_flag [OF m] d by simp
  show ?thesis
    using m d p by simp
qed

end
